theory Spec2Isabelle
  imports Main "HOL-Library.Word" "HOL-Library.Signed_Division"
begin

section \<open>Smart medicine dispenser firmware (sketch.ino)\<close>

text \<open>
  A shallow embedding of the control code of \<^verbatim>\<open>sketch.ino\<close>. The firmware is a
  single-threaded program over global variables; every function of the sketch becomes a
  function on a record of those globals. Calls into the drivers (LCD, servos, buzzer,
  LED, sleep registers) are recorded, in program order, in an event trace. The UART log
  (\<^verbatim>\<open>Serial.print\<close>) changes no state of the sketch and is left out of the trace.
\<close>

subsection \<open>Machine types and configuration constants\<close>

type_synonym byte = "8 word"
type_synonym ulong = "32 word"

definition MAX_MEDICATIONS :: nat where "MAX_MEDICATIONS = 5"
definition SERVO_CLOSED_POS :: nat where "SERVO_CLOSED_POS = 0"
definition SERVO_OPEN_POS :: nat where "SERVO_OPEN_POS = 90"
definition DISPENSE_DELAY :: nat where "DISPENSE_DELAY = 1000"
definition BUZZER_FREQ :: nat where "BUZZER_FREQ = 2000"
definition BUZZER_DURATION :: nat where "BUZZER_DURATION = 200"
definition BUZZER_DISPENSE_BEEPS :: int where "BUZZER_DISPENSE_BEEPS = 3"
definition LED_BLINK_DURATION :: nat where "LED_BLINK_DURATION = 200"
definition BUTTON_WAKE_BLINKS :: int where "BUTTON_WAKE_BLINKS = 2"
definition WATCHDOG_WAKE_BLINKS :: int where "WATCHDOG_WAKE_BLINKS = 1"
definition SLEEP_TIMEOUT :: ulong where "SLEEP_TIMEOUT = 10000"
definition DISPLAY_MODES :: nat where "DISPLAY_MODES = 2"
definition DEBOUNCE_TIME :: ulong where "DEBOUNCE_TIME = 200"
definition CHECK_INTERVAL :: ulong where "CHECK_INTERVAL = 1000"

subsection \<open>Data model\<close>

text \<open>\<^verbatim>\<open>struct Medication\<close>: one slot of the schedule.\<close>

record Medication =
  active :: bool
  hour :: byte
  minute :: byte
  dispensedToday :: bool

text \<open>The value of \<^verbatim>\<open>rtc.now()\<close>; the accessors of \<^verbatim>\<open>DateTime\<close> return \<^verbatim>\<open>uint8_t\<close>.\<close>

record DateTime =
  dt_hour :: byte
  dt_minute :: byte
  dt_second :: byte

text \<open>
  Interrupts delivered while the processor sleeps. The button interrupt carries the value
  that \<^verbatim>\<open>millis()\<close> has inside its handler.
\<close>

datatype irq = INT0 ulong | WDT

text \<open>Driver calls, as they appear in the trace.\<close>

datatype event =
    LcdClear
  | LcdPrint string
  | LcdPrintNum int
  | LcdSetCursor nat nat
  | LcdBacklight
  | LcdNoBacklight
  | LcdDisplay
  | LcdNoDisplay
  | TopServoWrite nat
  | BottomServoWrite nat
  | Delay nat
  | Tone nat nat
  | NoTone
  | LedWrite bool
  | NoInterrupts
  | Interrupts
  | McusrClearWdrf
  | WdtcsrChangeEnable
  | WdtcsrInterrupt8s
  | AdcDisable
  | AdcEnable
  | SetSleepModePwrDown
  | SleepEnable
  | SleepDisable
  | ClearIntf0
  | SleepCpu
  | WdtDisable

text \<open>
  The globals of the sketch, the two static locals of \<^verbatim>\<open>displayTime\<close>, and the
  environment: the EEPROM (one stored record per slot, at offset
  \<^verbatim>\<open>i * sizeof(Medication)\<close>), the millisecond counter, the successive readings of the
  real-time clock, the keys the keypad will deliver (one per \<^verbatim>\<open>getKey\<close>, then
  \<^verbatim>\<open>NO_KEY\<close> for ever) and the interrupts that will arrive during sleep.
  The array \<^verbatim>\<open>medications[MAX_MEDICATIONS]\<close> is a store from index to slot; the
  code only ever touches indices below \<open>MAX_MEDICATIONS\<close>.

  \<open>rtc s n\<close> is what the \<open>n\<close>-th call of \<^verbatim>\<open>rtc.now()\<close> returns, so the clock may
  read differently at every call. \<^verbatim>\<open>byte\<close> is 8 bits and \<^verbatim>\<open>unsigned long\<close> 32 bits,
  both with wrap-around.
\<close>

record state =
  medications :: "nat \<Rightarrow> Medication"
  buttonWakeFlag :: bool
  watchdogWakeFlag :: bool
  inSleepMode :: bool
  displayMode :: byte
  lastButtonTime :: ulong
  lastActionTime :: ulong
  lastCheckTime :: ulong
  inSetupMode :: bool
  lastDisplayedMinute :: byte
  lastDisplayMode :: byte
  eeprom :: "nat \<Rightarrow> Medication"
  millis :: ulong
  rtc :: "nat \<Rightarrow> DateTime"
  rtc_reads :: nat
  keys :: "char list"
  irqs :: "irq list"
  trace :: "event list"

text \<open>
  A call either returns or never does: a busy-wait for a key with no key left, or a sleep
  with no interrupt left. The state reached is kept in both cases.
\<close>

datatype 'a run = Returns 'a | Hangs state

definition then_run :: "'a run \<Rightarrow> ('a \<Rightarrow> 'b run) \<Rightarrow> 'b run" where
  "then_run r f = (case r of Returns x \<Rightarrow> f x | Hangs s \<Rightarrow> Hangs s)"

definition final :: "state run \<Rightarrow> state" where
  "final r = (case r of Returns s \<Rightarrow> s | Hangs s \<Rightarrow> s)"

subsection \<open>Driver primitives\<close>

definition emit :: "event \<Rightarrow> state \<Rightarrow> state" where
  "emit e s = s\<lparr>trace := trace s @ [e]\<rparr>"

definition emits :: "event list \<Rightarrow> state \<Rightarrow> state" where
  "emits es s = s\<lparr>trace := trace s @ es\<rparr>"

text \<open>\<^verbatim>\<open>delay(n)\<close> is the only thing that lets the millisecond counter advance.\<close>

definition delay :: "nat \<Rightarrow> state \<Rightarrow> state" where
  "delay n s = s\<lparr>millis := millis s + of_nat n, trace := trace s @ [Delay n]\<rparr>"

definition rtc_now :: "state \<Rightarrow> DateTime \<times> state" where
  "rtc_now s = (rtc s (rtc_reads s), s\<lparr>rtc_reads := Suc (rtc_reads s)\<rparr>)"

subsection \<open>Interrupt handlers\<close>

text \<open>
  \<^verbatim>\<open>ISR(INT0_vect)\<close>; \<open>currentTime\<close> is what \<^verbatim>\<open>millis()\<close> returns in the handler.
  The handlers are functions on the state: the main-context functions below run without
  interruption except inside \<open>enterSleepMode\<close>, where the pending interrupts are served;
  an interrupt at any other moment is the handler applied between two calls.
\<close>

definition ISR_INT0_vect :: "ulong \<Rightarrow> state \<Rightarrow> state" where
  "ISR_INT0_vect currentTime s =
     (if currentTime - lastButtonTime s \<ge> DEBOUNCE_TIME then
        (if inSleepMode s then s\<lparr>buttonWakeFlag := True\<rparr>
         else s\<lparr>displayMode := of_nat ((unat (displayMode s) + 1) mod DISPLAY_MODES),
                lastActionTime := currentTime\<rparr>)
        \<lparr>lastButtonTime := currentTime\<rparr>
      else s)"

definition ISR_WDT_vect :: "state \<Rightarrow> state" where
  "ISR_WDT_vect s = s\<lparr>watchdogWakeFlag := True\<rparr>"

subsection \<open>Buzzer and LED\<close>

definition beep :: "int \<Rightarrow> state \<Rightarrow> state" where
  "beep count s =
     fold (\<lambda>i s. let s1 = emit (Tone BUZZER_FREQ BUZZER_DURATION) s;
                      s2 = delay BUZZER_DURATION s1;
                      s3 = emit NoTone s2
                  in if int i < count - 1 then delay BUZZER_DURATION s3 else s3)
          [0..<nat count] s"

definition blinkLED :: "int \<Rightarrow> state \<Rightarrow> state" where
  "blinkLED count s =
     fold (\<lambda>i s. let s1 = emit (LedWrite True) s;
                      s2 = delay LED_BLINK_DURATION s1;
                      s3 = emit (LedWrite False) s2
                  in if int i < count - 1 then delay LED_BLINK_DURATION s3 else s3)
          [0..<nat count] s"

subsection \<open>Schedule store\<close>

definition saveMedications :: "state \<Rightarrow> state" where
  "saveMedications s =
     fold (\<lambda>i s. s\<lparr>eeprom := (eeprom s)(i := medications s i)\<rparr>) [0..<MAX_MEDICATIONS] s"

definition loadMedications :: "state \<Rightarrow> state" where
  "loadMedications s =
     fold (\<lambda>i s.
        let s1 = s\<lparr>medications := (medications s)(i := eeprom s i)\<rparr>
        in if hour (medications s1 i) > 23 \<or> minute (medications s1 i) > 59
           then s1\<lparr>medications := (medications s1)
                  (i := (medications s1 i)\<lparr>active := False, hour := 0, minute := 0,
                                               dispensedToday := False\<rparr>)\<rparr>
           else s1)
       [0..<MAX_MEDICATIONS] s"

definition resetDailyDispensedFlags :: "state \<Rightarrow> state" where
  "resetDailyDispensedFlags s =
     fold (\<lambda>i s. s\<lparr>medications := (medications s)
                      (i := (medications s i)\<lparr>dispensedToday := False\<rparr>)\<rparr>)
       [0..<MAX_MEDICATIONS] s"

subsection \<open>Time to the next dose\<close>

text \<open>
  The arithmetic of \<^verbatim>\<open>getTimeToNextMedication\<close> is on 16-bit \<^verbatim>\<open>int\<close>. Its operands
  come from bytes, so every intermediate value lies between \<open>-15555\<close> and \<open>16995\<close> and
  nothing wraps; \<^verbatim>\<open>/\<close> and \<^verbatim>\<open>%\<close> truncate towards zero. The result is
  \<open>(found, hoursToNext, minutesToNext)\<close>.
\<close>

definition getTimeToNextMedication :: "DateTime \<Rightarrow> (nat \<Rightarrow> Medication) \<Rightarrow> bool \<times> int \<times> int" where
  "getTimeToNextMedication now meds =
     (let (minMinutes, found) =
        fold (\<lambda>i (minMinutes, found).
           if active (meds i) then
             let medicationTotalMinutes = uint (hour (meds i)) * 60 + uint (minute (meds i));
                 currentTotalMinutes = uint (dt_hour now) * 60 + uint (dt_minute now);
                 minutesDiff =
                   (if dispensedToday (meds i)
                    then medicationTotalMinutes + (24 * 60) - currentTotalMinutes
                    else let d = medicationTotalMinutes - currentTotalMinutes
                         in if d < 0 then d + 24 * 60 else d)
             in if minutesDiff < minMinutes then (minutesDiff, True) else (minMinutes, found)
           else (minMinutes, found))
          [0..<MAX_MEDICATIONS] (24 * 60, False)
      in (found, minMinutes sdiv 60, minMinutes smod 60))"

subsection \<open>Display\<close>

definition print2 :: "byte \<Rightarrow> state \<Rightarrow> state" where
  "print2 v s = emit (LcdPrintNum (uint v)) (if v < 10 then emit (LcdPrint ''0'') s else s)"

definition displayTime :: "bool \<Rightarrow> state \<Rightarrow> state" where
  "displayTime forceUpdate s =
     (let (now, s1) = rtc_now s in
      if forceUpdate \<or> dt_minute now \<noteq> lastDisplayedMinute s1 \<or> displayMode s1 \<noteq> lastDisplayMode s1
      then
        let s2 = s1\<lparr>lastDisplayedMinute := dt_minute now, lastDisplayMode := displayMode s1\<rparr>;
            s3 = emits [LcdClear, LcdPrint ''Time: ''] s2;
            s4 = print2 (dt_hour now) s3;
            s5 = emit (LcdPrint '':'') s4;
            s6 = print2 (dt_minute now) s5;
            s7 = emit (LcdSetCursor 0 1) s6
        in if displayMode s7 = 0 then emit (LcdPrint ''Press A -> Setup'') s7
           else if displayMode s7 = 1 then
             let s8 = emit (LcdPrint ''Next: '') s7;
                 (hasNext, hoursToNext, minutesToNext) =
                    getTimeToNextMedication now (medications s8)
             in if hasNext then
                  emits [LcdPrintNum minutesToNext, LcdPrint ''m'']
                    (if hoursToNext > 0
                     then emits [LcdPrintNum hoursToNext, LcdPrint ''h''] s8 else s8)
                else emit (LcdPrint ''None'') s8
           else s7
      else s1)"

subsection \<open>Dispense sequencer\<close>

definition dispense :: "state \<Rightarrow> state" where
  "dispense s =
     (let s1 = emits [LcdClear, LcdPrint ''Dispensing...'', LcdSetCursor 0 1,
                      LcdPrint ''Step 1/3''] s;
          s2 = delay DISPENSE_DELAY (emit (TopServoWrite SERVO_OPEN_POS) s1);
          s3 = emits [LcdSetCursor 0 1, LcdPrint ''Step 2/3       ''] s2;
          s4 = delay DISPENSE_DELAY (emit (TopServoWrite SERVO_CLOSED_POS) s3);
          s5 = emits [LcdSetCursor 0 1, LcdPrint ''Step 3/3       ''] s4;
          s6 = delay DISPENSE_DELAY (emit (BottomServoWrite SERVO_OPEN_POS) s5);
          s7 = emit (BottomServoWrite SERVO_CLOSED_POS) s6;
          s8 = beep BUZZER_DISPENSE_BEEPS s7;
          s9 = emits [LcdClear, LcdPrint ''Medicine'', LcdSetCursor 0 1,
                      LcdPrint ''Dispensed!''] s8;
          s10 = emit LcdClear (delay 2000 s9)
      in displayTime True s10)"

subsection \<open>Scheduler\<close>

text \<open>The loop of \<^verbatim>\<open>checkMedicationDue\<close>, with its \<^verbatim>\<open>continue\<close>s and its early return.\<close>

fun due_scan :: "DateTime \<Rightarrow> (nat \<Rightarrow> Medication) \<Rightarrow> nat list \<Rightarrow> bool" where
  "due_scan now meds [] = False"
| "due_scan now meds (i # is) =
     (if \<not> active (meds i) then due_scan now meds is
      else if dispensedToday (meds i) then due_scan now meds is
      else if hour (meds i) = dt_hour now \<and> minute (meds i) = dt_minute now then True
      else due_scan now meds is)"

definition checkMedicationDue :: "state \<Rightarrow> bool \<times> state" where
  "checkMedicationDue s =
     (let (now, s1) = rtc_now s in
      if dt_hour now = 0 \<and> dt_minute now = 0 then (False, resetDailyDispensedFlags s1)
      else (due_scan now (medications s1) [0..<MAX_MEDICATIONS], s1))"

text \<open>The guard and the body of the loop of \<^verbatim>\<open>checkSchedule\<close>.\<close>

definition due :: "DateTime \<Rightarrow> Medication \<Rightarrow> bool" where
  "due now m = (active m \<and> \<not> dispensedToday m \<and> hour m = dt_hour now \<and> minute m = dt_minute now)"

definition dispense_slot :: "nat \<Rightarrow> state \<Rightarrow> state" where
  "dispense_slot i s =
     (let s1 = emits [LcdClear, LcdPrint ''MEDICINE TIME!'', LcdSetCursor 0 1,
                      LcdPrint ''Dispensing #'', LcdPrintNum (int i + 1)] s;
          s2 = dispense s1;
          s3 = s2\<lparr>medications := (medications s2)
                     (i := (medications s2 i)\<lparr>dispensedToday := True\<rparr>)\<rparr>;
          s4 = s3\<lparr>lastActionTime := millis s3\<rparr>
      in delay 5000 s4)"

definition checkSchedule :: "state \<Rightarrow> state" where
  "checkSchedule s =
     (let (now, s1) = rtc_now s;
          s2 = (if dt_hour now = 0 \<and> dt_minute now = 0 then resetDailyDispensedFlags s1 else s1)
      in fold (\<lambda>i s. if due now (medications s i) then dispense_slot i s else s)
           [0..<MAX_MEDICATIONS] s2)"

subsection \<open>Setup flow\<close>

text \<open>
  The busy-wait loops of the modal flows poll the keypad and refresh \<^verbatim>\<open>lastActionTime\<close>
  at every poll. Each takes the keys still to come; with none left it polls for ever.
\<close>

fun pick_slot :: "char list \<Rightarrow> state \<Rightarrow> (char option \<times> state) run" where
  "pick_slot [] s = Hangs (s\<lparr>lastActionTime := millis s\<rparr>)"
| "pick_slot (selection # ks) s =
     (let s1 = s\<lparr>keys := ks, lastActionTime := millis s\<rparr> in
      if (of_char selection :: nat) \<ge> of_char (CHR ''1'') \<and>
         (of_char selection :: nat) \<le> of_char (CHR ''5'') then Returns (Some selection, s1)
      else if selection = CHR ''D'' then Returns (None, s1)
      else pick_slot ks s1)"

fun wait_active :: "char list \<Rightarrow> state \<Rightarrow> (char option \<times> state) run" where
  "wait_active [] s = Hangs (s\<lparr>lastActionTime := millis s\<rparr>)"
| "wait_active (activeKey # ks) s =
     (let s1 = s\<lparr>keys := ks, lastActionTime := millis s\<rparr> in
      if activeKey = CHR ''1'' \<or> activeKey = CHR ''0'' then Returns (Some activeKey, s1)
      else if activeKey = CHR ''D'' then Returns (None, s1)
      else wait_active ks s1)"

text \<open>
  The hour loop and the minute loop of \<^verbatim>\<open>setMedicationTime\<close> are the same code up to
  the bound and the prompt; \<open>v\<close> is the local \<^verbatim>\<open>hour\<close> or \<^verbatim>\<open>minute\<close>, a byte.
  \<open>None\<close> is the cancel by \<^verbatim>\<open>D\<close>.
\<close>

fun read_number :: "byte \<Rightarrow> string \<Rightarrow> char list \<Rightarrow> byte \<Rightarrow> state \<Rightarrow> (byte option \<times> state) run" where
  "read_number bound prompt [] v s = Hangs (s\<lparr>lastActionTime := millis s\<rparr>)"
| "read_number bound prompt (k # ks) v s =
     (let s1 = s\<lparr>keys := ks, lastActionTime := millis s\<rparr> in
      if (of_char k :: nat) \<ge> of_char (CHR ''0'') \<and> (of_char k :: nat) \<le> of_char (CHR ''9'') then
        let digit = (of_char k :: byte) - of_char (CHR ''0'');
            v1 = (if v = 0 then digit else v * 10 + digit);
            v2 = (if v1 > bound then bound else v1)
        in read_number bound prompt ks v2
             (emits [LcdClear, LcdPrint prompt, LcdSetCursor 0 1, LcdPrintNum (uint v2)] s1)
      else if k = CHR ''#'' then Returns (Some v, s1)
      else if k = CHR ''*'' then
        read_number bound prompt ks 0
          (emits [LcdSetCursor 0 1, LcdPrint ''    '', LcdSetCursor 0 1] s1)
      else if k = CHR ''D'' then Returns (None, s1)
      else read_number bound prompt ks v s1)"

definition setMedicationTime :: "nat \<Rightarrow> state \<Rightarrow> state run" where
  "setMedicationTime index s =
     (let s1 = emits [LcdClear, LcdPrint ''Set Medicine '', LcdPrintNum (int index + 1),
                      LcdSetCursor 0 1, LcdPrint ''Active? 1=Y 0=N''] s in
      then_run (wait_active (keys s1) s1) (\<lambda>(activeKey, s2).
        case activeKey of
          None \<Rightarrow> Returns s2
        | Some k \<Rightarrow>
            let s3 = s2\<lparr>medications := (medications s2)
                         (index := (medications s2 index)\<lparr>active := (k = CHR ''1'')\<rparr>)\<rparr>
            in if \<not> active (medications s3 index) then
                 Returns (delay 1500
                   (emits [LcdClear, LcdPrint ''Medicine '', LcdPrintNum (int index + 1),
                           LcdSetCursor 0 1, LcdPrint ''Deactivated''] s3))
               else
                 let s4 = emits [LcdClear, LcdPrint ''Set Hour (0-23):'', LcdSetCursor 0 1] s3 in
                 then_run (read_number 23 ''Set Hour (0-23):'' (keys s4) 0 s4) (\<lambda>(hourSet, s5).
                   case hourSet of
                     None \<Rightarrow> Returns s5
                   | Some h \<Rightarrow>
                       let s6 = s5\<lparr>medications := (medications s5)
                                    (index := (medications s5 index)\<lparr>hour := h\<rparr>)\<rparr>;
                           s7 = emits [LcdClear, LcdPrint ''Set Minute (0-59):'',
                                       LcdSetCursor 0 1] s6
                       in then_run (read_number 59 ''Set Minute (0-59):'' (keys s7) 0 s7)
                            (\<lambda>(minuteSet, s8).
                               case minuteSet of
                                 None \<Rightarrow> Returns s8
                               | Some m \<Rightarrow>
                                   let s9 = s8\<lparr>medications := (medications s8)
                                                (index := (medications s8 index)
                                                   \<lparr>minute := m, dispensedToday := False\<rparr>)\<rparr>
                                   in Returns (delay 1500
                                        (emits [LcdClear, LcdPrint ''Medicine '',
                                                LcdPrintNum (int index + 1), LcdSetCursor 0 1,
                                                LcdPrint ''Time Set!''] s9))))))"

definition setupMedications :: "state \<Rightarrow> state run" where
  "setupMedications s =
     (let s1 = emits [LcdClear, LcdPrint ''Setup Medicine'', LcdSetCursor 0 1,
                      LcdPrint ''Pick 1-5 D=exit''] s in
      then_run (pick_slot (keys s1) s1) (\<lambda>(picked, s2).
        case picked of
          None \<Rightarrow> Returns s2
        | Some selection \<Rightarrow>
            let index = (of_char selection :: nat) - of_char (CHR ''1'') in
            then_run (setMedicationTime index s2) (\<lambda>s3. Returns (saveMedications s3))))"

subsection \<open>Review flow\<close>

fun wait_next :: "char list \<Rightarrow> state \<Rightarrow> (bool \<times> state) run" where
  "wait_next [] s = Hangs (s\<lparr>lastActionTime := millis s\<rparr>)"
| "wait_next (k # ks) s =
     (let s1 = s\<lparr>keys := ks, lastActionTime := millis s\<rparr> in
      if k = CHR ''#'' then Returns (True, s1)
      else if k = CHR ''D'' then Returns (False, s1)
      else wait_next ks s1)"

text \<open>The loop over the slots; the flag says whether it ran to its end.\<close>

fun show_slots :: "nat list \<Rightarrow> state \<Rightarrow> (bool \<times> state) run" where
  "show_slots [] s = Returns (True, s)"
| "show_slots (i # is) s =
     (if active (medications s i) then
        let s1 = emits [LcdClear, LcdPrint ''Med '', LcdPrintNum (int i + 1), LcdPrint '': ''] s;
            s2 = print2 (hour (medications s1 i)) s1;
            s3 = emit (LcdPrint '':'') s2;
            s4 = print2 (minute (medications s3 i)) s3;
            s5 = emits [LcdSetCursor 0 1, LcdPrint ''#=next | D=exit''] s4
        in then_run (wait_next (keys s5) s5)
             (\<lambda>(next, s6). if next then show_slots is s6 else Returns (False, s6))
      else show_slots is s)"

definition displayAllMedications :: "state \<Rightarrow> state run" where
  "displayAllMedications s =
     then_run (show_slots [0..<MAX_MEDICATIONS] s) (\<lambda>(ended, s1).
       if ended then Returns (delay 1000 (emits [LcdClear, LcdPrint ''End of list''] s1))
       else Returns s1)"

subsection \<open>Power state machine\<close>

definition setupWatchdog :: "state \<Rightarrow> state" where
  "setupWatchdog s = emits [McusrClearWdrf, WdtcsrChangeEnable, WdtcsrInterrupt8s] s"

text \<open>
  \<^verbatim>\<open>sleep_cpu()\<close> followed by the wait for one of the two wake flags: the interrupts
  still to come are served one by one until a flag is up.
\<close>

fun wait_wake :: "irq list \<Rightarrow> state \<Rightarrow> state run" where
  "wait_wake [] s = Hangs s"
| "wait_wake (q # qs) s =
     (let s1 = (case q of INT0 t \<Rightarrow> ISR_INT0_vect t (s\<lparr>irqs := qs\<rparr>)
                        | WDT \<Rightarrow> ISR_WDT_vect (s\<lparr>irqs := qs\<rparr>))
      in if \<not> buttonWakeFlag s1 \<and> \<not> watchdogWakeFlag s1 then wait_wake qs s1 else Returns s1)"

definition enterSleepMode :: "state \<Rightarrow> state run" where
  "enterSleepMode s =
     (let s1 = s\<lparr>buttonWakeFlag := False, watchdogWakeFlag := False\<rparr>;
          s2 = emits [LcdNoBacklight, LcdNoDisplay] s1;
          s3 = s2\<lparr>inSleepMode := True\<rparr>;
          s4 = setupWatchdog s3;
          s5 = emits [AdcDisable, SetSleepModePwrDown, SleepEnable, ClearIntf0, SleepCpu] s4
      in then_run (wait_wake (irqs s5) s5) (\<lambda>s6.
           Returns ((emits [SleepDisable, AdcEnable, WdtDisable] s6)\<lparr>inSleepMode := False\<rparr>)))"

subsection \<open>Main loop\<close>

text \<open>The body of \<^verbatim>\<open>if (buttonWakeFlag)\<close>.\<close>

definition button_wake :: "state \<Rightarrow> state" where
  "button_wake s =
     (let s1 = emit NoInterrupts s;
          s2 = s1\<lparr>lastActionTime := millis s1\<rparr>;
          s3 = s2\<lparr>buttonWakeFlag := False\<rparr>;
          s4 = emit Interrupts s3;
          s5 = blinkLED BUTTON_WAKE_BLINKS s4;
          s6 = emits [LcdBacklight, LcdDisplay] s5;
          s7 = s6\<lparr>lastActionTime := millis s6, lastCheckTime := millis s6\<rparr>;
          s8 = emits [LcdClear, LcdPrint ''System active''] s7;
          s9 = emit LcdClear (delay 1000 s8)
      in displayTime True s9)"

text \<open>The wait of the manual test (key \<^verbatim>\<open>C\<close>).\<close>

fun wait_test :: "char list \<Rightarrow> state \<Rightarrow> state run" where
  "wait_test [] s = Hangs (s\<lparr>lastActionTime := millis s\<rparr>)"
| "wait_test (testKey # ks) s =
     (let s1 = s\<lparr>keys := ks, lastActionTime := millis s\<rparr> in
      if testKey = CHR ''1'' then Returns (dispense s1)
      else if testKey = CHR ''D'' then Returns s1
      else wait_test ks s1)"

definition getKey :: "state \<Rightarrow> char \<times> state" where
  "getKey s = (case keys s of [] \<Rightarrow> (CHR 0x00, s) | k # ks \<Rightarrow> (k, s\<lparr>keys := ks\<rparr>))"

text \<open>Keypad handling, from \<^verbatim>\<open>keypad.getKey()\<close> to the forced display update.\<close>

definition handle_keypad :: "state \<Rightarrow> state run" where
  "handle_keypad s =
     (let (key, s1) = getKey s in
      if key \<noteq> CHR 0x00 then
        let s2 = s1\<lparr>lastActionTime := millis s1\<rparr> in
        then_run
          (if key = CHR ''A'' then
             then_run (setupMedications (s2\<lparr>inSetupMode := True\<rparr>))
               (\<lambda>s3. Returns (s3\<lparr>inSetupMode := False\<rparr>))
           else if key = CHR ''B'' then displayAllMedications s2
           else if key = CHR ''C'' then
             (let s3 = emits [LcdClear, LcdPrint ''Test dispenser'', LcdSetCursor 0 1,
                              LcdPrint ''1=Yes D=Cancel''] s2
              in wait_test (keys s3) s3)
           else if key = CHR ''D'' then Returns (emit LcdClear s2)
           else Returns s2)
          (\<lambda>s4. Returns (displayTime True s4))
      else Returns s1)"

text \<open>The rest of the loop: periodic schedule check, display refresh, sleep timeout.\<close>

definition loop_tail :: "state \<Rightarrow> state run" where
  "loop_tail s =
     (let currentMillis = millis s;
          s1 = (if currentMillis - lastCheckTime s \<ge> CHECK_INTERVAL
                then checkSchedule (s\<lparr>lastCheckTime := currentMillis\<rparr>) else s);
          s2 = (if \<not> inSetupMode s1 then displayTime False s1 else s1)
      in if millis s2 - lastActionTime s2 > SLEEP_TIMEOUT \<and> \<not> inSetupMode s2 then
           enterSleepMode (delay 1500
             (emits [LcdClear, LcdPrint ''Entering sleep'', LcdSetCursor 0 1,
                     LcdPrint ''Press wake btn''] s2))
         else Returns s2)"

definition loop :: "state \<Rightarrow> state run" where
  "loop s =
     (let s1 = (if buttonWakeFlag s then button_wake s else s) in
      if watchdogWakeFlag s1 \<and> \<not> buttonWakeFlag s1 then
        let s2 = s1\<lparr>watchdogWakeFlag := False\<rparr>;
            s3 = blinkLED WATCHDOG_WAKE_BLINKS s2;
            (isDue, s4) = checkMedicationDue s3
        in if isDue then
             let s5 = emits [LcdBacklight, LcdDisplay] s4;
                 s6 = s5\<lparr>lastActionTime := millis s5, lastCheckTime := millis s5\<rparr>
             in then_run (handle_keypad s6) loop_tail
           else enterSleepMode s4
      else then_run (handle_keypad s1) loop_tail)"

subsection \<open>Auxiliary definitions for the proofs\<close>

text \<open>The loop bodies of the schedule store, named, and the validation of one stored record.\<close>

definition clear_flag :: "nat \<Rightarrow> state \<Rightarrow> state" where
  "clear_flag i s = s\<lparr>medications := (medications s)
                      (i := (medications s i)\<lparr>dispensedToday := False\<rparr>)\<rparr>"

definition load_slot :: "nat \<Rightarrow> state \<Rightarrow> state" where
  "load_slot i s =
     (let s1 = s\<lparr>medications := (medications s)(i := eeprom s i)\<rparr>
        in if hour (medications s1 i) > 23 \<or> minute (medications s1 i) > 59
           then s1\<lparr>medications := (medications s1)
                  (i := (medications s1 i)\<lparr>active := False, hour := 0, minute := 0,
                                               dispensedToday := False\<rparr>)\<rparr>
           else s1)"

definition validated :: "Medication \<Rightarrow> Medication" where
  "validated r = (if hour r > 23 \<or> minute r > 59
                  then \<lparr>active = False, hour = 0, minute = 0, dispensedToday = False\<rparr> else r)"

subsection \<open>Example states\<close>

text \<open>
  An idle, awake device with a given schedule table and a clock that reads the same time
  at every reading; no key and no interrupt pending, an EEPROM of deactivated slots.
\<close>

definition slot_off :: Medication where
  "slot_off = \<lparr>active = False, hour = 0, minute = 0, dispensedToday = False\<rparr>"

definition slot_at :: "nat \<Rightarrow> nat \<Rightarrow> bool \<Rightarrow> Medication" where
  "slot_at h m d = \<lparr>active = True, hour = of_nat h, minute = of_nat m, dispensedToday = d\<rparr>"

definition clock_at :: "nat \<Rightarrow> nat \<Rightarrow> DateTime" where
  "clock_at h m = \<lparr>dt_hour = of_nat h, dt_minute = of_nat m, dt_second = 0\<rparr>"

definition idle_state :: "(nat \<Rightarrow> Medication) \<Rightarrow> DateTime \<Rightarrow> state" where
  "idle_state meds now =
     \<lparr>medications = meds, buttonWakeFlag = False, watchdogWakeFlag = False,
      inSleepMode = False, displayMode = 0, lastButtonTime = 0, lastActionTime = 0,
      lastCheckTime = 0, inSetupMode = False, lastDisplayedMinute = 99, lastDisplayMode = 99,
      eeprom = (\<lambda>_. slot_off), millis = 0, rtc = (\<lambda>_. now), rtc_reads = 0,
      keys = [], irqs = [], trace = []\<rparr>"

subsection \<open>Trace projections\<close>

text \<open>
  Text output to the LCD, as opposed to everything that moves, sounds, waits or switches
  power. \<open>actuations\<close> keeps the second kind.
\<close>

fun is_lcd :: "event \<Rightarrow> bool" where
  "is_lcd LcdClear = True"
| "is_lcd (LcdPrint t) = True"
| "is_lcd (LcdPrintNum n) = True"
| "is_lcd (LcdSetCursor c r) = True"
| "is_lcd e = False"

definition actuations :: "event list \<Rightarrow> event list" where
  "actuations es = filter (\<lambda>e. \<not> is_lcd e) es"

text \<open>What \<open>dispense\<close> sends to the drivers before its closing display update.\<close>

definition dispense_steps :: "event list" where
  "dispense_steps =
     [LcdClear, LcdPrint ''Dispensing...'', LcdSetCursor 0 1, LcdPrint ''Step 1/3'',
      TopServoWrite SERVO_OPEN_POS, Delay DISPENSE_DELAY,
      LcdSetCursor 0 1, LcdPrint ''Step 2/3       '',
      TopServoWrite SERVO_CLOSED_POS, Delay DISPENSE_DELAY,
      LcdSetCursor 0 1, LcdPrint ''Step 3/3       '',
      BottomServoWrite SERVO_OPEN_POS, Delay DISPENSE_DELAY,
      BottomServoWrite SERVO_CLOSED_POS,
      Tone BUZZER_FREQ BUZZER_DURATION, Delay BUZZER_DURATION, NoTone, Delay BUZZER_DURATION,
      Tone BUZZER_FREQ BUZZER_DURATION, Delay BUZZER_DURATION, NoTone, Delay BUZZER_DURATION,
      Tone BUZZER_FREQ BUZZER_DURATION, Delay BUZZER_DURATION, NoTone,
      LcdClear, LcdPrint ''Medicine'', LcdSetCursor 0 1, LcdPrint ''Dispensed!'', Delay 2000,
      LcdClear]"

text \<open>The same without the LCD text: gates, settle delays, beeps.\<close>

definition dispense_actuations :: "event list" where
  "dispense_actuations =
     [TopServoWrite SERVO_OPEN_POS, Delay DISPENSE_DELAY,
      TopServoWrite SERVO_CLOSED_POS, Delay DISPENSE_DELAY,
      BottomServoWrite SERVO_OPEN_POS, Delay DISPENSE_DELAY,
      BottomServoWrite SERVO_CLOSED_POS,
      Tone BUZZER_FREQ BUZZER_DURATION, Delay BUZZER_DURATION, NoTone, Delay BUZZER_DURATION,
      Tone BUZZER_FREQ BUZZER_DURATION, Delay BUZZER_DURATION, NoTone, Delay BUZZER_DURATION,
      Tone BUZZER_FREQ BUZZER_DURATION, Delay BUZZER_DURATION, NoTone,
      Delay 2000]"

definition before_display :: "state \<Rightarrow> state" where
  "before_display s = s\<lparr>millis := millis s + 6000, trace := trace s @ dispense_steps\<rparr>"

text \<open>Slots 0 and 2 due at 08:00, slot 3 set to 08:00 and already dispensed.\<close>

definition morning_table :: "nat \<Rightarrow> Medication" where
  "morning_table = (\<lambda>_. slot_off)(0 := slot_at 8 0 False, 2 := slot_at 8 0 False,
                                     3 := slot_at 8 0 True)"

subsection \<open>Sleep entry and wake, as seen by the drivers\<close>

text \<open>
  What \<open>enterSleepMode\<close> sends before the processor halts, and after it has been woken
  (nothing if it never is).
\<close>

definition sleep_entry :: "event list" where
  "sleep_entry = [LcdNoBacklight, LcdNoDisplay, McusrClearWdrf, WdtcsrChangeEnable,
                  WdtcsrInterrupt8s, AdcDisable, SetSleepModePwrDown, SleepEnable, ClearIntf0,
                  SleepCpu]"

definition sleep_exit :: "state run \<Rightarrow> event list" where
  "sleep_exit r = (case r of Returns s \<Rightarrow> [SleepDisable, AdcEnable, WdtDisable] | Hangs s \<Rightarrow> [])"

text \<open>What the button-wake branch of \<open>loop\<close> sends before its display update.\<close>

definition wake_events :: "event list" where
  "wake_events =
     [NoInterrupts, Interrupts,
      LedWrite True, Delay LED_BLINK_DURATION, LedWrite False, Delay LED_BLINK_DURATION,
      LedWrite True, Delay LED_BLINK_DURATION, LedWrite False,
      LcdBacklight, LcdDisplay, LcdClear, LcdPrint ''System active'', Delay 1000, LcdClear]"

definition before_wake_display :: "state \<Rightarrow> state" where
  "before_wake_display s =
     s\<lparr>buttonWakeFlag := False, lastActionTime := millis s + 600,
       lastCheckTime := millis s + 600, millis := millis s + 1600,
       trace := trace s @ wake_events\<rparr>"

text \<open>An awake device with only the watchdog flag up, and one with both wake flags up.\<close>

definition watchdog_only :: state where
  "watchdog_only = (idle_state (\<lambda>_. slot_off) (clock_at 8 0))\<lparr>watchdogWakeFlag := True\<rparr>"

definition both_latched :: state where
  "both_latched = (idle_state (\<lambda>_. slot_off) (clock_at 8 0))
                    \<lparr>buttonWakeFlag := True, watchdogWakeFlag := True\<rparr>"

subsection \<open>Auxiliary definitions for the setup flow\<close>

text \<open>The state a keypad wait ends in, whether it returns or not.\<close>

definition run_state :: "('a \<times> state) run \<Rightarrow> state" where
  "run_state r = (case r of Returns (x, s) \<Rightarrow> s | Hangs s \<Rightarrow> s)"

text \<open>The loop body of \<open>saveMedications\<close>.\<close>

definition store_slot :: "nat \<Rightarrow> state \<Rightarrow> state" where
  "store_slot i s = s\<lparr>eeprom := (eeprom s)(i := medications s i)\<rparr>"

text \<open>The keys \<^verbatim>\<open>'1'\<close> to \<^verbatim>\<open>'5'\<close> that pick a slot, and the index they pick.\<close>

definition is_slot_key :: "char \<Rightarrow> bool" where
  "is_slot_key c = ((of_char c :: nat) \<ge> of_char (CHR ''1'') \<and> (of_char c :: nat) \<le> of_char (CHR ''5''))"

definition slot_of_key :: "char \<Rightarrow> nat" where
  "slot_of_key c = (of_char c :: nat) - of_char (CHR ''1'')"

text \<open>The morning table at 09:00 with the given keys about to be pressed.\<close>

definition setup_state :: "char list \<Rightarrow> state" where
  "setup_state ks = (idle_state morning_table (clock_at 9 0))\<lparr>keys := ks\<rparr>"

section \<open>Verification\<close>

subsection \<open>Schedule store\<close>

lemma slots_upt: "[0..<MAX_MEDICATIONS] = [0, 1, 2, 3, 4]"
  by (simp add: MAX_MEDICATIONS_def upt_rec)

lemma reset_fold:
  "fold clear_flag js s
   = s\<lparr>medications := (\<lambda>j. if j \<in> set js then (medications s j)\<lparr>dispensedToday := False\<rparr>
                              else medications s j)\<rparr>"
proof (induction js arbitrary: s)
  case Nil
  show ?case by simp
next
  case (Cons i js)
  have "fold clear_flag (i # js) s = fold clear_flag js (clear_flag i s)" by simp
  also have "\<dots> = (clear_flag i s)\<lparr>medications :=
       (\<lambda>j. if j \<in> set js then (medications (clear_flag i s) j)\<lparr>dispensedToday := False\<rparr>
            else medications (clear_flag i s) j)\<rparr>"
    by (rule Cons.IH)
  also have "\<dots> = s\<lparr>medications :=
       (\<lambda>j. if j \<in> set (i # js) then (medications s j)\<lparr>dispensedToday := False\<rparr>
            else medications s j)\<rparr>"
    unfolding clear_flag_def
    by (simp, intro arg_cong [where f = "\<lambda>m. s\<lparr>medications := m\<rparr>"] ext) simp
  finally show ?case .
qed

lemma resetDailyDispensedFlags_eq:
  "resetDailyDispensedFlags s =
     s\<lparr>medications := (\<lambda>j. if j < MAX_MEDICATIONS
                             then (medications s j)\<lparr>dispensedToday := False\<rparr>
                             else medications s j)\<rparr>"
proof -
  have "resetDailyDispensedFlags s = fold clear_flag [0..<MAX_MEDICATIONS] s"
    unfolding resetDailyDispensedFlags_def clear_flag_def ..
  then show ?thesis by (simp add: reset_fold)
qed

text \<open>
  Claim C7. The midnight reset clears \<open>dispensedToday\<close> in all five slots, keeps
  \<open>active\<close>, \<open>hour\<close> and \<open>minute\<close> of every slot, and applying it twice gives the
  same state as applying it once.
\<close>

theorem reset_idempotent:
  "(\<forall>i < MAX_MEDICATIONS.
       dispensedToday (medications (resetDailyDispensedFlags s) i) = False
     \<and> active (medications (resetDailyDispensedFlags s) i) = active (medications s i)
     \<and> hour (medications (resetDailyDispensedFlags s) i) = hour (medications s i)
     \<and> minute (medications (resetDailyDispensedFlags s) i) = minute (medications s i))
   \<and> resetDailyDispensedFlags (resetDailyDispensedFlags s) = resetDailyDispensedFlags s"
proof -
  have "resetDailyDispensedFlags (resetDailyDispensedFlags s) = resetDailyDispensedFlags s"
    by (simp add: resetDailyDispensedFlags_eq,
        intro arg_cong [where f = "\<lambda>m. s\<lparr>medications := m\<rparr>"] ext) simp
  then show ?thesis by (simp add: resetDailyDispensedFlags_eq)
qed

theorem reset_idempotent_witness:
  "(0::nat) < MAX_MEDICATIONS
   \<and> dispensedToday (medications (resetDailyDispensedFlags
        (idle_state ((\<lambda>_. slot_off)(0 := slot_at 8 0 True)) (clock_at 0 0))) 0) = False
   \<and> hour (medications (resetDailyDispensedFlags
        (idle_state ((\<lambda>_. slot_off)(0 := slot_at 8 0 True)) (clock_at 0 0))) 0) = 8
   \<and> resetDailyDispensedFlags (resetDailyDispensedFlags
        (idle_state ((\<lambda>_. slot_off)(0 := slot_at 8 0 True)) (clock_at 0 0)))
     = resetDailyDispensedFlags
        (idle_state ((\<lambda>_. slot_off)(0 := slot_at 8 0 True)) (clock_at 0 0))"
  using reset_idempotent [of "idle_state ((\<lambda>_. slot_off)(0 := slot_at 8 0 True)) (clock_at 0 0)"]
  by (simp add: MAX_MEDICATIONS_def idle_state_def slot_at_def)

lemma clear_all_fields:
  "(r :: Medication)\<lparr>active := False, hour := 0, minute := 0, dispensedToday := False\<rparr>
     = \<lparr>active = False, hour = 0, minute = 0, dispensedToday = False\<rparr>"
  by (rule Medication.equality) simp_all

lemma load_slot_eq: "load_slot i s = s\<lparr>medications := (medications s)(i := validated (eeprom s i))\<rparr>"
  by (simp add: load_slot_def validated_def Let_def clear_all_fields)

lemma load_fold:
  "fold load_slot js s
   = s\<lparr>medications := (\<lambda>j. if j \<in> set js then validated (eeprom s j) else medications s j)\<rparr>"
proof (induction js arbitrary: s)
  case Nil
  show ?case by simp
next
  case (Cons i js)
  have "fold load_slot (i # js) s = fold load_slot js (load_slot i s)" by simp
  also have "\<dots> = (load_slot i s)\<lparr>medications :=
       (\<lambda>j. if j \<in> set js then validated (eeprom (load_slot i s) j)
            else medications (load_slot i s) j)\<rparr>"
    by (rule Cons.IH)
  also have "\<dots> = s\<lparr>medications :=
       (\<lambda>j. if j \<in> set (i # js) then validated (eeprom s j) else medications s j)\<rparr>"
    unfolding load_slot_eq
    by (simp, intro arg_cong [where f = "\<lambda>m. s\<lparr>medications := m\<rparr>"] ext) simp
  finally show ?case .
qed

lemma loadMedications_eq:
  "loadMedications s =
     s\<lparr>medications := (\<lambda>j. if j < MAX_MEDICATIONS then validated (eeprom s j)
                             else medications s j)\<rparr>"
proof -
  have "loadMedications s = fold load_slot [0..<MAX_MEDICATIONS] s"
    unfolding loadMedications_def load_slot_def ..
  then show ?thesis by (simp add: load_fold)
qed

text \<open>
  Claim C6. After \<open>loadMedications\<close> every slot has \<open>hour \<le> 23\<close> and \<open>minute \<le> 59\<close>;
  a stored record with \<open>hour > 23\<close> or \<open>minute > 59\<close> is replaced by the deactivated
  default slot, a stored record in range is kept as read; the call returns and changes
  nothing but the table (no error is reported, no driver is called).
\<close>

theorem load_validates:
  "(\<forall>i < MAX_MEDICATIONS.
       hour (medications (loadMedications s) i) \<le> 23
     \<and> minute (medications (loadMedications s) i) \<le> 59
     \<and> (hour (eeprom s i) > 23 \<or> minute (eeprom s i) > 59 \<longrightarrow>
          medications (loadMedications s) i
            = \<lparr>active = False, hour = 0, minute = 0, dispensedToday = False\<rparr>)
     \<and> (hour (eeprom s i) \<le> 23 \<and> minute (eeprom s i) \<le> 59 \<longrightarrow>
          medications (loadMedications s) i = eeprom s i))
   \<and> loadMedications s = s\<lparr>medications := medications (loadMedications s)\<rparr>"
  by (auto simp add: loadMedications_eq validated_def not_less)

theorem load_validates_witness:
  "(0::nat) < MAX_MEDICATIONS \<and> (1::nat) < MAX_MEDICATIONS
   \<and> hour (\<lparr>active = True, hour = 255, minute = 255, dispensedToday = True\<rparr>) > 23
   \<and> medications (loadMedications
        ((idle_state (\<lambda>_. slot_off) (clock_at 8 0))
           \<lparr>eeprom := (\<lambda>_. \<lparr>active = True, hour = 255, minute = 255, dispensedToday = True\<rparr>)
                        (1 := slot_at 7 30 True)\<rparr>)) 0
       = \<lparr>active = False, hour = 0, minute = 0, dispensedToday = False\<rparr>
   \<and> medications (loadMedications
        ((idle_state (\<lambda>_. slot_off) (clock_at 8 0))
           \<lparr>eeprom := (\<lambda>_. \<lparr>active = True, hour = 255, minute = 255, dispensedToday = True\<rparr>)
                        (1 := slot_at 7 30 True)\<rparr>)) 1
       = slot_at 7 30 True"
  using load_validates [of "(idle_state (\<lambda>_. slot_off) (clock_at 8 0))
           \<lparr>eeprom := (\<lambda>_. \<lparr>active = True, hour = 255, minute = 255, dispensedToday = True\<rparr>)
                        (1 := slot_at 7 30 True)\<rparr>"]
  by (simp add: MAX_MEDICATIONS_def idle_state_def slot_at_def)

subsection \<open>Button interrupt\<close>

text \<open>
  Claim C9. A button interrupt that arrives less than \<open>DEBOUNCE_TIME\<close> (200 ms) after
  the last accepted one leaves the whole state as it is: no wake flag, no display-mode
  toggle, no time stamp. Of two interrupts fewer than 200 ms apart, the first of which
  is accepted, only the first acts (it sets the wake flag when asleep and toggles the
  display mode when awake).
\<close>

theorem debounce_rejects:
  "(currentTime - lastButtonTime s < DEBOUNCE_TIME \<longrightarrow> ISR_INT0_vect currentTime s = s)
   \<and> (DEBOUNCE_TIME \<le> t - lastButtonTime s \<and> d < DEBOUNCE_TIME \<longrightarrow>
        lastButtonTime (ISR_INT0_vect t s) = t
      \<and> (inSleepMode s \<longrightarrow> buttonWakeFlag (ISR_INT0_vect t s))
      \<and> (\<not> inSleepMode s \<longrightarrow>
           displayMode (ISR_INT0_vect t s) = of_nat ((unat (displayMode s) + 1) mod DISPLAY_MODES))
      \<and> ISR_INT0_vect (t + d) (ISR_INT0_vect t s) = ISR_INT0_vect t s)"
  by (auto simp add: ISR_INT0_vect_def not_le)

theorem debounce_rejects_witness:
  "(1050 :: ulong) - 1000 < DEBOUNCE_TIME \<and> DEBOUNCE_TIME \<le> (1000 :: ulong) - 0
   \<and> ISR_INT0_vect 1050 ((idle_state (\<lambda>_. slot_off) (clock_at 8 0))\<lparr>lastButtonTime := 1000\<rparr>)
       = (idle_state (\<lambda>_. slot_off) (clock_at 8 0))\<lparr>lastButtonTime := 1000\<rparr>
   \<and> displayMode (ISR_INT0_vect 1000 (idle_state (\<lambda>_. slot_off) (clock_at 8 0))) = 1
   \<and> ISR_INT0_vect (1000 + 50) (ISR_INT0_vect 1000 (idle_state (\<lambda>_. slot_off) (clock_at 8 0)))
       = ISR_INT0_vect 1000 (idle_state (\<lambda>_. slot_off) (clock_at 8 0))"
  using debounce_rejects [where currentTime = 1050 and t = 1000 and d = 50
           and s = "(idle_state (\<lambda>_. slot_off) (clock_at 8 0))\<lparr>lastButtonTime := 1000\<rparr>"]
        debounce_rejects [where currentTime = 1050 and t = 1000 and d = 50
           and s = "idle_state (\<lambda>_. slot_off) (clock_at 8 0)"]
  by (simp add: idle_state_def DEBOUNCE_TIME_def DISPLAY_MODES_def)

subsection \<open>Is a dose due now\<close>

lemma due_scan_iff: "due_scan now meds js = (\<exists>i \<in> set js. due now (meds i))"
  by (induction js) (auto simp add: due_def)

text \<open>
  Claim C1. \<open>checkMedicationDue\<close> returns true if and only if some slot that is
  active and not yet dispensed today has exactly the current hour and minute, the reset
  minute 00:00 excluded: at 00:00 it returns false whatever the table holds.
\<close>

theorem checkMedicationDue_iff:
  "fst (checkMedicationDue s) =
     (\<not> (dt_hour (rtc s (rtc_reads s)) = 0 \<and> dt_minute (rtc s (rtc_reads s)) = 0)
      \<and> (\<exists>i < MAX_MEDICATIONS.
            active (medications s i) \<and> \<not> dispensedToday (medications s i)
          \<and> hour (medications s i) = dt_hour (rtc s (rtc_reads s))
          \<and> minute (medications s i) = dt_minute (rtc s (rtc_reads s))))"
  by (auto simp add: checkMedicationDue_def rtc_now_def due_scan_iff due_def)

theorem checkMedicationDue_iff_witness:
  "fst (checkMedicationDue (idle_state ((\<lambda>_. slot_off)(0 := slot_at 8 0 False)) (clock_at 8 0)))
   \<and> \<not> fst (checkMedicationDue (idle_state ((\<lambda>_. slot_off)(0 := slot_at 8 0 True)) (clock_at 8 0)))
   \<and> \<not> fst (checkMedicationDue (idle_state ((\<lambda>_. slot_off)(0 := slot_at 8 0 False)) (clock_at 0 0)))"
  using checkMedicationDue_iff [of "idle_state ((\<lambda>_. slot_off)(0 := slot_at 8 0 False)) (clock_at 8 0)"]
        checkMedicationDue_iff [of "idle_state ((\<lambda>_. slot_off)(0 := slot_at 8 0 True)) (clock_at 8 0)"]
        checkMedicationDue_iff [of "idle_state ((\<lambda>_. slot_off)(0 := slot_at 8 0 False)) (clock_at 0 0)"]
  by (auto simp add: idle_state_def slot_at_def slot_off_def clock_at_def MAX_MEDICATIONS_def)

text \<open>The reset minute wins over a matching slot: slot 0 active, not dispensed, set to 00:00.\<close>

lemma checkMedicationDue_midnight_matching_slot:
  "\<not> fst (checkMedicationDue (idle_state ((\<lambda>_. slot_off)(0 := slot_at 0 0 False)) (clock_at 0 0)))"
  by (simp add: checkMedicationDue_def rtc_now_def idle_state_def clock_at_def)

subsection \<open>Dispense sequencer\<close>

lemma beep_dispense:
  "beep BUZZER_DISPENSE_BEEPS s =
     s\<lparr>millis := millis s + 1000,
       trace := trace s @ [Tone BUZZER_FREQ BUZZER_DURATION, Delay BUZZER_DURATION, NoTone,
                           Delay BUZZER_DURATION,
                           Tone BUZZER_FREQ BUZZER_DURATION, Delay BUZZER_DURATION, NoTone,
                           Delay BUZZER_DURATION,
                           Tone BUZZER_FREQ BUZZER_DURATION, Delay BUZZER_DURATION, NoTone]\<rparr>"
  by (simp add: beep_def BUZZER_DISPENSE_BEEPS_def upt_rec emit_def delay_def BUZZER_DURATION_def)

lemma displayTime_medications: "medications (displayTime b s) = medications s"
  by (simp add: displayTime_def rtc_now_def Let_def print2_def emit_def emits_def split: prod.split)

lemma displayTime_millis: "millis (displayTime b s) = millis s"
  by (simp add: displayTime_def rtc_now_def Let_def print2_def emit_def emits_def split: prod.split)

lemma displayTime_trace:
  "\<exists>shown. trace (displayTime b s) = trace s @ shown \<and> list_all is_lcd shown"
  by (simp add: displayTime_def rtc_now_def Let_def print2_def emit_def emits_def split: prod.split)

lemma displayTime_actuations: "actuations (trace (displayTime b s)) = actuations (trace s)"
proof -
  obtain shown where "trace (displayTime b s) = trace s @ shown" and "list_all is_lcd shown"
    using displayTime_trace by blast
  then show ?thesis by (simp add: actuations_def list_all_iff)
qed

lemma dispense_eq: "dispense s = displayTime True (before_display s)"
  by (simp add: dispense_def Let_def beep_dispense emit_def emits_def delay_def
        before_display_def dispense_steps_def DISPENSE_DELAY_def ac_simps)

lemma dispense_medications: "medications (dispense s) = medications s"
  by (simp add: dispense_eq displayTime_medications before_display_def)

lemma dispense_millis: "millis (dispense s) = millis s + 6000"
  by (simp add: dispense_eq displayTime_millis before_display_def)

lemma actuations_append: "actuations (xs @ ys) = actuations xs @ actuations ys"
  by (simp add: actuations_def)

lemma actuations_Cons:
  "actuations (e # es) = (if is_lcd e then actuations es else e # actuations es)"
  by (simp add: actuations_def)

lemma actuations_Nil: "actuations [] = []"
  by (simp add: actuations_def)

lemma dispense_actuations_eq:
  "actuations (trace (dispense s)) = actuations (trace s) @ dispense_actuations"
proof -
  have "actuations (trace (dispense s)) = actuations (trace (before_display s))"
    by (simp add: dispense_eq displayTime_actuations)
  also have "\<dots> = actuations (trace s) @ dispense_actuations"
    by (simp add: before_display_def dispense_steps_def dispense_actuations_def
          actuations_append actuations_Cons actuations_Nil)
  finally show ?thesis .
qed

text \<open>
  Claim C4. Every call of \<open>dispense\<close> sends to the drivers exactly \<open>dispense_steps\<close>
  followed by LCD text only. Apart from LCD text this is: open the upper gate, wait
  \<open>DISPENSE_DELAY\<close>, close the upper gate, wait \<open>DISPENSE_DELAY\<close>, open the lower gate,
  wait \<open>DISPENSE_DELAY\<close>, close the lower gate, then three tones; nothing else, and
  the schedule table is not touched in between.
\<close>

theorem dispense_sequence:
  "(\<exists>shown. trace (dispense s) = trace s @ dispense_steps @ shown \<and> list_all is_lcd shown)
   \<and> actuations (trace (dispense s)) = actuations (trace s) @
       [TopServoWrite SERVO_OPEN_POS, Delay DISPENSE_DELAY,
        TopServoWrite SERVO_CLOSED_POS, Delay DISPENSE_DELAY,
        BottomServoWrite SERVO_OPEN_POS, Delay DISPENSE_DELAY,
        BottomServoWrite SERVO_CLOSED_POS,
        Tone BUZZER_FREQ BUZZER_DURATION, Delay BUZZER_DURATION, NoTone, Delay BUZZER_DURATION,
        Tone BUZZER_FREQ BUZZER_DURATION, Delay BUZZER_DURATION, NoTone, Delay BUZZER_DURATION,
        Tone BUZZER_FREQ BUZZER_DURATION, Delay BUZZER_DURATION, NoTone,
        Delay 2000]
   \<and> medications (dispense s) = medications s"
proof -
  obtain shown where sh: "trace (displayTime True (before_display s))
      = trace (before_display s) @ shown" "list_all is_lcd shown"
    using displayTime_trace by blast
  have a: "\<exists>shown. trace (dispense s) = trace s @ dispense_steps @ shown \<and> list_all is_lcd shown"
    using sh by (simp add: dispense_eq before_display_def)
  have b: "actuations (trace (dispense s)) = actuations (trace s) @ dispense_actuations"
    by (rule dispense_actuations_eq)
  show ?thesis
    using a b dispense_medications [of s] by (simp add: dispense_actuations_def)
qed

theorem dispense_sequence_witness:
  "actuations (trace (dispense (idle_state (\<lambda>_. slot_off) (clock_at 8 0)))) =
       [TopServoWrite 90, Delay 1000, TopServoWrite 0, Delay 1000,
        BottomServoWrite 90, Delay 1000, BottomServoWrite 0,
        Tone 2000 200, Delay 200, NoTone, Delay 200,
        Tone 2000 200, Delay 200, NoTone, Delay 200,
        Tone 2000 200, Delay 200, NoTone, Delay 2000]"
  using dispense_sequence [of "idle_state (\<lambda>_. slot_off) (clock_at 8 0)"]
  by (simp add: idle_state_def actuations_def SERVO_OPEN_POS_def SERVO_CLOSED_POS_def
        DISPENSE_DELAY_def BUZZER_FREQ_def BUZZER_DURATION_def)

subsection \<open>Scheduler\<close>

lemma dispense_slot_medications:
  "medications (dispense_slot i s) = (medications s)(i := (medications s i)\<lparr>dispensedToday := True\<rparr>)"
  by (simp add: dispense_slot_def Let_def delay_def dispense_medications emits_def)

lemma dispense_slot_actuations:
  "actuations (trace (dispense_slot i s))
     = actuations (trace s) @ dispense_actuations @ [Delay 5000]"
  by (simp add: dispense_slot_def Let_def delay_def dispense_actuations_eq emits_def
        actuations_append actuations_Cons actuations_Nil)

lemma check_fold:
  "distinct js \<Longrightarrow>
   fold (\<lambda>i s. if due now (medications s i) then dispense_slot i s else s) js s
     = fold dispense_slot (filter (\<lambda>i. due now (medications s i)) js) s"
proof (induction js arbitrary: s)
  case Nil
  show ?case by simp
next
  case (Cons i js)
  show ?case
  proof (cases "due now (medications s i)")
    case True
    have "filter (\<lambda>j. due now (medications (dispense_slot i s) j)) js
            = filter (\<lambda>j. due now (medications s j)) js"
      using Cons.prems by (intro filter_cong) (auto simp add: dispense_slot_medications)
    then show ?thesis using True Cons.IH [of "dispense_slot i s"] Cons.prems by simp
  next
    case False
    then show ?thesis using Cons.IH [of s] Cons.prems by simp
  qed
qed

lemma fold_dispense_slot_medications:
  "medications (fold dispense_slot js s) k =
     (if k \<in> set js then (medications s k)\<lparr>dispensedToday := True\<rparr> else medications s k)"
  by (induction js arbitrary: s) (auto simp add: dispense_slot_medications)

lemma fold_dispense_slot_actuations:
  "actuations (trace (fold dispense_slot js s))
     = actuations (trace s) @ concat (map (\<lambda>i. dispense_actuations @ [Delay 5000]) js)"
  by (induction js arbitrary: s) (simp_all add: dispense_slot_actuations)

text \<open>
  Claim C2. At a clock reading other than 00:00, one call of \<open>checkSchedule\<close> is the
  body of its loop (\<open>dispense_slot\<close>: announce, dispense, mark, hold) run once for each
  slot that was active, not yet dispensed and set to the current hour and minute when the
  call began, in increasing index order. Afterwards exactly those slots have
  \<open>dispensedToday\<close> set and every other field of every slot is as before; the drivers
  have seen one full dispense sequence per such slot.
\<close>

theorem checkSchedule_dispenses_due:
  assumes "\<not> (dt_hour (rtc s (rtc_reads s)) = 0 \<and> dt_minute (rtc s (rtc_reads s)) = 0)"
  shows "checkSchedule s =
           fold dispense_slot
             (filter (\<lambda>i. due (rtc s (rtc_reads s)) (medications s i)) [0..<MAX_MEDICATIONS])
             (s\<lparr>rtc_reads := Suc (rtc_reads s)\<rparr>)
       \<and> (\<forall>i. medications (checkSchedule s) i =
               (if i < MAX_MEDICATIONS \<and> due (rtc s (rtc_reads s)) (medications s i)
                then (medications s i)\<lparr>dispensedToday := True\<rparr> else medications s i))
       \<and> actuations (trace (checkSchedule s)) =
           actuations (trace s) @
           concat (map (\<lambda>i. dispense_actuations @ [Delay 5000])
             (filter (\<lambda>i. due (rtc s (rtc_reads s)) (medications s i)) [0..<MAX_MEDICATIONS]))"
proof -
  have eq: "checkSchedule s =
           fold dispense_slot
             (filter (\<lambda>i. due (rtc s (rtc_reads s)) (medications s i)) [0..<MAX_MEDICATIONS])
             (s\<lparr>rtc_reads := Suc (rtc_reads s)\<rparr>)"
    using assms check_fold [of "[0..<MAX_MEDICATIONS]" "rtc s (rtc_reads s)" "s\<lparr>rtc_reads := Suc (rtc_reads s)\<rparr>"]
    by (auto simp add: checkSchedule_def rtc_now_def)
  have meds: "\<forall>i. medications (checkSchedule s) i =
               (if i < MAX_MEDICATIONS \<and> due (rtc s (rtc_reads s)) (medications s i)
                then (medications s i)\<lparr>dispensedToday := True\<rparr> else medications s i)"
    by (simp add: eq fold_dispense_slot_medications)
  have acts: "actuations (trace (checkSchedule s)) =
           actuations (trace s) @
           concat (map (\<lambda>i. dispense_actuations @ [Delay 5000])
             (filter (\<lambda>i. due (rtc s (rtc_reads s)) (medications s i)) [0..<MAX_MEDICATIONS]))"
    by (simp add: eq fold_dispense_slot_actuations)
  show ?thesis using eq meds acts by blast
qed

theorem checkSchedule_dispenses_due_witness:
  "\<not> (dt_hour (clock_at 8 0) = 0 \<and> dt_minute (clock_at 8 0) = 0)
   \<and> checkSchedule (idle_state morning_table (clock_at 8 0))
       = dispense_slot 2 (dispense_slot 0 ((idle_state morning_table (clock_at 8 0))\<lparr>rtc_reads := 1\<rparr>))
   \<and> medications (checkSchedule (idle_state morning_table (clock_at 8 0))) 0 = slot_at 8 0 True
   \<and> medications (checkSchedule (idle_state morning_table (clock_at 8 0))) 1 = slot_off
   \<and> medications (checkSchedule (idle_state morning_table (clock_at 8 0))) 2 = slot_at 8 0 True
   \<and> medications (checkSchedule (idle_state morning_table (clock_at 8 0))) 3 = slot_at 8 0 True"
proof -
  have h: "\<not> (dt_hour (rtc (idle_state morning_table (clock_at 8 0))
                        (rtc_reads (idle_state morning_table (clock_at 8 0)))) = 0
             \<and> dt_minute (rtc (idle_state morning_table (clock_at 8 0))
                        (rtc_reads (idle_state morning_table (clock_at 8 0)))) = 0)"
    by (simp add: idle_state_def clock_at_def)
  note t = checkSchedule_dispenses_due [OF h]
  have due: "filter (\<lambda>i. due (rtc (idle_state morning_table (clock_at 8 0))
                                (rtc_reads (idle_state morning_table (clock_at 8 0))))
                           (medications (idle_state morning_table (clock_at 8 0)) i))
               [0..<MAX_MEDICATIONS] = [0, 2]"
    by (simp add: idle_state_def morning_table_def slot_at_def slot_off_def clock_at_def
          due_def slots_upt)
  have a: "checkSchedule (idle_state morning_table (clock_at 8 0))
       = dispense_slot 2 (dispense_slot 0 ((idle_state morning_table (clock_at 8 0))\<lparr>rtc_reads := 1\<rparr>))"
    using t [THEN conjunct1] unfolding due by (simp add: idle_state_def)
  have b: "medications (checkSchedule (idle_state morning_table (clock_at 8 0))) 0 = slot_at 8 0 True"
    using t [THEN conjunct2, THEN conjunct1, THEN spec, of 0]
    by (simp add: idle_state_def morning_table_def slot_at_def slot_off_def clock_at_def
          due_def MAX_MEDICATIONS_def)
  have c: "medications (checkSchedule (idle_state morning_table (clock_at 8 0))) 1 = slot_off"
    using t [THEN conjunct2, THEN conjunct1, THEN spec, of 1]
    by (simp add: idle_state_def morning_table_def slot_at_def slot_off_def clock_at_def
          due_def MAX_MEDICATIONS_def)
  have d: "medications (checkSchedule (idle_state morning_table (clock_at 8 0))) 2 = slot_at 8 0 True"
    using t [THEN conjunct2, THEN conjunct1, THEN spec, of 2]
    by (simp add: idle_state_def morning_table_def slot_at_def slot_off_def clock_at_def
          due_def MAX_MEDICATIONS_def)
  have e: "medications (checkSchedule (idle_state morning_table (clock_at 8 0))) 3 = slot_at 8 0 True"
    using t [THEN conjunct2, THEN conjunct1, THEN spec, of 3]
    by (simp add: idle_state_def morning_table_def slot_at_def slot_off_def clock_at_def
          due_def MAX_MEDICATIONS_def)
  show ?thesis using a b c d e by (simp add: clock_at_def)
qed

subsection \<open>Time to the next dose\<close>

text \<open>
  Claim C3, at the input where the code departs from it. One active slot set to 08:00 and
  already dispensed today, clock reading 08:00: the next occurrence is tomorrow, 24 hours
  away, and the function answers \<open>found = false\<close> (with 24 h 0 min).
\<close>

theorem next_dose_not_found_after_dispense:
  "active (((\<lambda>_. slot_off)(0 := slot_at 8 0 True)) 0)
   \<and> getTimeToNextMedication (clock_at 8 0) ((\<lambda>_. slot_off)(0 := slot_at 8 0 True)) = (False, 24, 0)"
  by (simp add: getTimeToNextMedication_def slots_upt slot_at_def slot_off_def clock_at_def
        signed_divide_int_def signed_modulo_int_def)

text \<open>The scenario of the specification: 23:50, one active slot at 00:10 not yet dispensed.\<close>

lemma next_dose_over_midnight:
  "getTimeToNextMedication (clock_at 23 50) ((\<lambda>_. slot_off)(0 := slot_at 0 10 False)) = (True, 0, 20)"
  by (simp add: getTimeToNextMedication_def slots_upt slot_at_def slot_off_def clock_at_def
        signed_divide_int_def signed_modulo_int_def)

text \<open>A dispensed slot whose time is still ahead today is not found either.\<close>

lemma next_dose_later_dispensed:
  "getTimeToNextMedication (clock_at 7 0) ((\<lambda>_. slot_off)(0 := slot_at 8 0 True)) = (False, 24, 0)"
  by (simp add: getTimeToNextMedication_def slots_upt slot_at_def slot_off_def clock_at_def
        signed_divide_int_def signed_modulo_int_def)

subsection \<open>Power state machine\<close>

lemma blinkLED_watchdog:
  "blinkLED WATCHDOG_WAKE_BLINKS s =
     s\<lparr>millis := millis s + 200,
       trace := trace s @ [LedWrite True, Delay LED_BLINK_DURATION, LedWrite False]\<rparr>"
  by (simp add: blinkLED_def WATCHDOG_WAKE_BLINKS_def upt_rec emit_def delay_def LED_BLINK_DURATION_def)

lemma blinkLED_button:
  "blinkLED BUTTON_WAKE_BLINKS s =
     s\<lparr>millis := millis s + 600,
       trace := trace s @ [LedWrite True, Delay LED_BLINK_DURATION, LedWrite False,
                           Delay LED_BLINK_DURATION,
                           LedWrite True, Delay LED_BLINK_DURATION, LedWrite False]\<rparr>"
  by (simp add: blinkLED_def BUTTON_WAKE_BLINKS_def upt_rec emit_def delay_def LED_BLINK_DURATION_def)

lemma wait_wake_trace: "trace (final (wait_wake qs s)) = trace s"
  by (induction qs arbitrary: s)
     (auto simp add: final_def Let_def ISR_INT0_vect_def ISR_WDT_vect_def split: irq.split)

lemma wait_wake_returns_trace: "wait_wake qs s = Returns s' \<Longrightarrow> trace s' = trace s"
  using wait_wake_trace [of qs s] by (simp add: final_def)

lemma wait_wake_hangs_trace: "wait_wake qs s = Hangs s' \<Longrightarrow> trace s' = trace s"
  using wait_wake_trace [of qs s] by (simp add: final_def)

lemma enterSleepMode_trace:
  "trace (final (enterSleepMode s)) = trace s @ sleep_entry @ sleep_exit (enterSleepMode s)"
  by (auto simp add: enterSleepMode_def Let_def then_run_def final_def sleep_exit_def
        sleep_entry_def setupWatchdog_def emits_def
        dest: wait_wake_returns_trace wait_wake_hangs_trace split: run.split)

lemma checkMedicationDue_trace: "trace (snd (checkMedicationDue s)) = trace s"
  by (simp add: checkMedicationDue_def rtc_now_def resetDailyDispensedFlags_eq)

lemma checkMedicationDue_after_blink:
  "fst (checkMedicationDue (blinkLED WATCHDOG_WAKE_BLINKS (s\<lparr>watchdogWakeFlag := False\<rparr>)))
     = fst (checkMedicationDue s)"
  by (simp add: blinkLED_watchdog checkMedicationDue_def rtc_now_def)

lemma checkMedicationDue_irqs: "irqs (snd (checkMedicationDue s)) = irqs s"
  by (simp add: checkMedicationDue_def rtc_now_def resetDailyDispensedFlags_eq)

lemma enterSleepMode_no_irq:
  "irqs s = [] \<Longrightarrow> sleep_exit (enterSleepMode s) = [] \<and> inSleepMode (final (enterSleepMode s))"
  by (simp add: enterSleepMode_def Let_def then_run_def final_def sleep_exit_def
        setupWatchdog_def emits_def)

text \<open>
  Claim C5. With only the watchdog flag up and no dose due, one iteration of \<open>loop\<close> is:
  blink the LED once, evaluate the schedule, call \<open>enterSleepMode\<close> and return. The
  drivers see the blink, the sleep entry and, if the processor is woken again, the sleep
  exit; among these there is no backlight-on and no display-on command.
\<close>

theorem watchdog_wake_without_dose_sleeps:
  assumes "\<not> buttonWakeFlag s" and "watchdogWakeFlag s" and "\<not> fst (checkMedicationDue s)"
  shows "loop s = enterSleepMode
                    (snd (checkMedicationDue
                       (blinkLED WATCHDOG_WAKE_BLINKS (s\<lparr>watchdogWakeFlag := False\<rparr>))))
       \<and> trace (final (loop s)) =
           trace s @ [LedWrite True, Delay LED_BLINK_DURATION, LedWrite False]
                   @ sleep_entry @ sleep_exit (loop s)
       \<and> LcdBacklight \<notin> set (drop (length (trace s)) (trace (final (loop s))))
       \<and> LcdDisplay \<notin> set (drop (length (trace s)) (trace (final (loop s))))
       \<and> SleepCpu \<in> set (drop (length (trace s)) (trace (final (loop s))))"
proof -
  have eq: "loop s = enterSleepMode
                    (snd (checkMedicationDue
                       (blinkLED WATCHDOG_WAKE_BLINKS (s\<lparr>watchdogWakeFlag := False\<rparr>))))"
    using assms checkMedicationDue_after_blink [of s]
    by (simp add: loop_def Let_def case_prod_beta)
  have tr: "trace (final (loop s)) =
           trace s @ [LedWrite True, Delay LED_BLINK_DURATION, LedWrite False]
                   @ sleep_entry @ sleep_exit (loop s)"
    unfolding eq enterSleepMode_trace checkMedicationDue_trace
    by (simp add: blinkLED_watchdog)
  have no: "LcdBacklight \<notin> set (drop (length (trace s)) (trace (final (loop s))))"
     "LcdDisplay \<notin> set (drop (length (trace s)) (trace (final (loop s))))"
     "SleepCpu \<in> set (drop (length (trace s)) (trace (final (loop s))))"
    unfolding tr by (simp_all add: sleep_entry_def sleep_exit_def split: run.split)
  show ?thesis using eq tr no by blast
qed

theorem watchdog_wake_without_dose_sleeps_witness:
  "\<not> buttonWakeFlag watchdog_only \<and> watchdogWakeFlag watchdog_only
   \<and> \<not> fst (checkMedicationDue watchdog_only)
   \<and> trace (final (loop watchdog_only)) =
       [LedWrite True, Delay 200, LedWrite False,
        LcdNoBacklight, LcdNoDisplay, McusrClearWdrf, WdtcsrChangeEnable, WdtcsrInterrupt8s,
        AdcDisable, SetSleepModePwrDown, SleepEnable, ClearIntf0, SleepCpu]
   \<and> LcdBacklight \<notin> set (trace (final (loop watchdog_only)))
   \<and> LcdDisplay \<notin> set (trace (final (loop watchdog_only)))"
proof -
  have h: "\<not> buttonWakeFlag watchdog_only" "watchdogWakeFlag watchdog_only"
    by (simp_all add: watchdog_only_def idle_state_def)
  have nd: "\<not> fst (checkMedicationDue watchdog_only)"
    by (simp add: checkMedicationDue_def rtc_now_def watchdog_only_def idle_state_def
          clock_at_def slot_off_def slots_upt)
  note t = watchdog_wake_without_dose_sleeps [OF h nd]
  define s4 where "s4 = snd (checkMedicationDue
                       (blinkLED WATCHDOG_WAKE_BLINKS (watchdog_only\<lparr>watchdogWakeFlag := False\<rparr>)))"
  have eq: "loop watchdog_only = enterSleepMode s4"
    unfolding s4_def by (rule t [THEN conjunct1])
  have ir: "irqs s4 = []"
    unfolding s4_def
    by (simp add: checkMedicationDue_irqs blinkLED_watchdog watchdog_only_def idle_state_def)
  have ex: "sleep_exit (loop watchdog_only) = []"
    unfolding eq using enterSleepMode_no_irq [OF ir] by simp
  have t0: "trace watchdog_only = []"
    by (simp add: watchdog_only_def idle_state_def)
  have tr: "trace (final (loop watchdog_only)) =
       [LedWrite True, Delay 200, LedWrite False,
        LcdNoBacklight, LcdNoDisplay, McusrClearWdrf, WdtcsrChangeEnable, WdtcsrInterrupt8s,
        AdcDisable, SetSleepModePwrDown, SleepEnable, ClearIntf0, SleepCpu]"
    using t [THEN conjunct2, THEN conjunct1]
    by (simp add: ex t0 sleep_entry_def LED_BLINK_DURATION_def)
  show ?thesis using h nd unfolding tr by simp
qed

subsection \<open>Both wake flags latched\<close>

lemma button_wake_eq: "button_wake s = displayTime True (before_wake_display s)"
  by (simp add: button_wake_def Let_def blinkLED_button emit_def emits_def delay_def
        before_wake_display_def wake_events_def ac_simps)

lemma displayTime_frame:
  "buttonWakeFlag (displayTime b s) = buttonWakeFlag s"
  "watchdogWakeFlag (displayTime b s) = watchdogWakeFlag s"
  "irqs (displayTime b s) = irqs s"
  "rtc (displayTime b s) = rtc s"
  "rtc_reads (displayTime b s) = Suc (rtc_reads s)"
  by (simp_all add: displayTime_def rtc_now_def Let_def print2_def emit_def emits_def
        split: prod.split)

lemma loop_both_latched:
  assumes "buttonWakeFlag s" and "watchdogWakeFlag s"
    and "\<not> fst (checkMedicationDue (button_wake s))"
  shows "loop s = enterSleepMode
                    (snd (checkMedicationDue
                       (blinkLED WATCHDOG_WAKE_BLINKS ((button_wake s)\<lparr>watchdogWakeFlag := False\<rparr>))))"
proof -
  have f: "\<not> buttonWakeFlag (button_wake s)" "watchdogWakeFlag (button_wake s)"
    using assms by (simp_all add: button_wake_eq displayTime_frame before_wake_display_def)
  show ?thesis
    using assms f checkMedicationDue_after_blink [of "button_wake s"]
    by (simp add: loop_def Let_def case_prod_beta)
qed

lemma button_wake_both_latched:
  "trace (button_wake both_latched) =
     wake_events @ [LcdClear, LcdPrint ''Time: '', LcdPrint ''0'', LcdPrintNum 8, LcdPrint '':'',
                    LcdPrint ''0'', LcdPrintNum 0, LcdSetCursor 0 1, LcdPrint ''Press A -> Setup'']"
  "medications (button_wake both_latched) = (\<lambda>_. slot_off)"
  "rtc (button_wake both_latched) = (\<lambda>_. clock_at 8 0)"
  "irqs (button_wake both_latched) = []"
  by (simp_all add: button_wake_eq displayTime_frame displayTime_medications)
     (simp_all add: before_wake_display_def both_latched_def idle_state_def displayTime_def
        rtc_now_def Let_def print2_def emit_def emits_def clock_at_def)

text \<open>
  Claim C8, at the input where the code departs from it. Both wake flags are up and no
  dose is due. The iteration handles the button wake (backlight and display on, timers
  reset, "System active"), which clears \<open>buttonWakeFlag\<close>; the guard
  \<open>watchdogWakeFlag \<and> \<not> buttonWakeFlag\<close> that follows is therefore true, and the same
  iteration blinks for the watchdog wake, switches the display off and sleeps again.
\<close>

theorem both_wake_flags_sleeps_again:
  "buttonWakeFlag both_latched \<and> watchdogWakeFlag both_latched
   \<and> \<not> fst (checkMedicationDue both_latched)
   \<and> trace (final (loop both_latched)) =
       wake_events @
       [LcdClear, LcdPrint ''Time: '', LcdPrint ''0'', LcdPrintNum 8, LcdPrint '':'',
        LcdPrint ''0'', LcdPrintNum 0, LcdSetCursor 0 1, LcdPrint ''Press A -> Setup'',
        LedWrite True, Delay LED_BLINK_DURATION, LedWrite False,
        LcdNoBacklight, LcdNoDisplay, McusrClearWdrf, WdtcsrChangeEnable, WdtcsrInterrupt8s,
        AdcDisable, SetSleepModePwrDown, SleepEnable, ClearIntf0, SleepCpu]
   \<and> inSleepMode (final (loop both_latched))"
proof -
  have fl: "buttonWakeFlag both_latched" "watchdogWakeFlag both_latched"
    by (simp_all add: both_latched_def idle_state_def)
  have nd0: "\<not> fst (checkMedicationDue both_latched)"
    by (simp add: checkMedicationDue_def rtc_now_def both_latched_def idle_state_def
          clock_at_def slot_off_def slots_upt)
  have nd: "\<not> fst (checkMedicationDue (button_wake both_latched))"
    by (simp add: checkMedicationDue_def rtc_now_def button_wake_both_latched
          clock_at_def slot_off_def slots_upt)
  define s4 where "s4 = snd (checkMedicationDue (blinkLED WATCHDOG_WAKE_BLINKS
              ((button_wake both_latched)\<lparr>watchdogWakeFlag := False\<rparr>)))"
  have eq: "loop both_latched = enterSleepMode s4"
    unfolding s4_def by (rule loop_both_latched [OF fl nd])
  have ir: "irqs s4 = []"
    unfolding s4_def by (simp add: checkMedicationDue_irqs blinkLED_watchdog button_wake_both_latched)
  have t4: "trace s4 = trace (button_wake both_latched)
                         @ [LedWrite True, Delay LED_BLINK_DURATION, LedWrite False]"
    unfolding s4_def by (simp add: checkMedicationDue_trace blinkLED_watchdog)
  note ex = enterSleepMode_no_irq [OF ir]
  have tr: "trace (final (enterSleepMode s4)) = trace s4 @ sleep_entry"
    unfolding enterSleepMode_trace by (simp add: ex)
  show ?thesis
    using fl nd0 ex unfolding eq tr t4
    by (simp add: button_wake_both_latched sleep_entry_def)
qed

subsection \<open>Setup flow\<close>

lemma wait_active_medications: "medications (run_state (wait_active ks s)) = medications s"
  by (induction ks arbitrary: s) (simp_all add: run_state_def Let_def)

lemma read_number_medications:
  "medications (run_state (read_number bound prompt ks v s)) = medications s"
  by (induction ks arbitrary: v s) (simp_all add: run_state_def Let_def emits_def)

lemma pick_slot_medications: "medications (run_state (pick_slot ks s)) = medications s"
  by (induction ks arbitrary: s) (simp_all add: run_state_def Let_def)

lemma wait_active_Returns: "wait_active ks s = Returns (x, s') \<Longrightarrow> medications s' = medications s"
  using wait_active_medications [of ks s] by (simp add: run_state_def)

lemma wait_active_Hangs: "wait_active ks s = Hangs s' \<Longrightarrow> medications s' = medications s"
  using wait_active_medications [of ks s] by (simp add: run_state_def)

lemma read_number_Returns:
  "read_number bound prompt ks v s = Returns (x, s') \<Longrightarrow> medications s' = medications s"
  using read_number_medications [of bound prompt ks v s] by (simp add: run_state_def)

lemma read_number_Hangs:
  "read_number bound prompt ks v s = Hangs s' \<Longrightarrow> medications s' = medications s"
  using read_number_medications [of bound prompt ks v s] by (simp add: run_state_def)

lemma pick_slot_Returns: "pick_slot ks s = Returns (x, s') \<Longrightarrow> medications s' = medications s"
  using pick_slot_medications [of ks s] by (simp add: run_state_def)

lemma pick_slot_Hangs: "pick_slot ks s = Hangs s' \<Longrightarrow> medications s' = medications s"
  using pick_slot_medications [of ks s] by (simp add: run_state_def)

lemma setMedicationTime_frame:
  "j \<noteq> index \<Longrightarrow> medications (final (setMedicationTime index s)) j = medications s j"
  by (auto simp add: setMedicationTime_def Let_def then_run_def final_def emits_def delay_def
        split: run.split option.split prod.split
        dest!: wait_active_Returns wait_active_Hangs read_number_Returns read_number_Hangs)

lemma store_fold_medications: "medications (fold store_slot js s) = medications s"
  by (induction js arbitrary: s) (simp_all add: store_slot_def)

lemma saveMedications_medications: "medications (saveMedications s) = medications s"
proof -
  have "saveMedications s = fold store_slot [0..<MAX_MEDICATIONS] s"
    unfolding saveMedications_def store_slot_def ..
  then show ?thesis by (simp add: store_fold_medications)
qed

lemma pick_slot_prefix:
  "\<lbrakk>list_all (\<lambda>k. \<not> is_slot_key k \<and> k \<noteq> CHR ''D'') pre; is_slot_key c\<rbrakk> \<Longrightarrow>
   pick_slot (pre @ c # rest) s = Returns (Some c, s\<lparr>keys := rest, lastActionTime := millis s\<rparr>)"
  by (induction pre arbitrary: s) (auto simp add: is_slot_key_def Let_def)

lemma wait_active_prefix:
  "\<lbrakk>list_all (\<lambda>k. k \<noteq> CHR ''1'' \<and> k \<noteq> CHR ''0'' \<and> k \<noteq> CHR ''D'') pre;
    c = CHR ''1'' \<or> c = CHR ''0''\<rbrakk> \<Longrightarrow>
   wait_active (pre @ c # rest) s = Returns (Some c, s\<lparr>keys := rest, lastActionTime := millis s\<rparr>)"
  by (induction pre arbitrary: s) (auto simp add: Let_def)

lemma read_number_prefix_case:
  "\<lbrakk>list_all (\<lambda>k. k \<noteq> CHR ''#'' \<and> k \<noteq> CHR ''D'') typed; medications s = M\<rbrakk> \<Longrightarrow>
   (case read_number bound prompt (typed @ CHR ''#'' # rest) v s of
      Returns (Some v', s') \<Rightarrow> keys s' = rest \<and> medications s' = M
    | Returns (None, s') \<Rightarrow> False
    | Hangs s' \<Rightarrow> False)"
  by (induction typed arbitrary: v s) (simp_all add: Let_def emits_def)

lemma read_number_prefix:
  "list_all (\<lambda>k. k \<noteq> CHR ''#'' \<and> k \<noteq> CHR ''D'') typed \<Longrightarrow>
   \<exists>v' s'. read_number bound prompt (typed @ CHR ''#'' # rest) v s = Returns (Some v', s')
          \<and> keys s' = rest \<and> medications s' = medications s"
  using read_number_prefix_case [where typed = typed and s = s and M = "medications s"
          and bound = bound and prompt = prompt and rest = rest and v = v]
  by (auto split: run.splits option.splits prod.splits)

lemma setupMedications_frame:
  assumes "keys s = pre @ c # rest"
    and "list_all (\<lambda>k. \<not> is_slot_key k \<and> k \<noteq> CHR ''D'') pre" and "is_slot_key c"
    and "j \<noteq> slot_of_key c"
  shows "medications (final (setupMedications s)) j = medications s j"
proof -
  define s2 where "s2 = (emits [LcdClear, LcdPrint ''Setup Medicine'', LcdSetCursor 0 1,
                      LcdPrint ''Pick 1-5 D=exit''] s)\<lparr>keys := rest, lastActionTime := millis s\<rparr>"
  have m2: "medications s2 = medications s" by (simp add: s2_def emits_def)
  have "setupMedications s =
          then_run (setMedicationTime (slot_of_key c) s2) (\<lambda>s3. Returns (saveMedications s3))"
    using assms(1) pick_slot_prefix [OF assms(2,3)]
    by (simp add: setupMedications_def Let_def then_run_def emits_def s2_def slot_of_key_def)
  then have "medications (final (setupMedications s)) j
               = medications (final (setMedicationTime (slot_of_key c) s2)) j"
    by (simp add: then_run_def final_def saveMedications_medications split: run.split)
  then show ?thesis using setMedicationTime_frame [OF assms(4), of s2] m2 by simp
qed

lemma setMedicationTime_deactivate:
  assumes "keys s = pre @ CHR ''0'' # rest"
    and "list_all (\<lambda>k. k \<noteq> CHR ''1'' \<and> k \<noteq> CHR ''0'' \<and> k \<noteq> CHR ''D'') pre"
  shows "\<exists>s'. setMedicationTime index s = Returns s'
            \<and> medications s' = (medications s)(index := (medications s index)\<lparr>active := False\<rparr>)"
  using assms(1) wait_active_prefix [OF assms(2), of "CHR ''0''"]
  by (simp add: setMedicationTime_def Let_def then_run_def emits_def delay_def)

lemma setMedicationTime_complete:
  assumes "keys s = pre @ CHR ''1'' # typed_hour @ CHR ''#'' # typed_minute @ CHR ''#'' # rest"
    and "list_all (\<lambda>k. k \<noteq> CHR ''1'' \<and> k \<noteq> CHR ''0'' \<and> k \<noteq> CHR ''D'') pre"
    and "list_all (\<lambda>k. k \<noteq> CHR ''#'' \<and> k \<noteq> CHR ''D'') typed_hour"
    and "list_all (\<lambda>k. k \<noteq> CHR ''#'' \<and> k \<noteq> CHR ''D'') typed_minute"
  shows "\<exists>s'. setMedicationTime index s = Returns s'
            \<and> active (medications s' index) \<and> \<not> dispensedToday (medications s' index)"
proof -
  define s3 where "s3 = (emits [LcdClear, LcdPrint ''Set Medicine '', LcdPrintNum (int index + 1),
                      LcdSetCursor 0 1, LcdPrint ''Active? 1=Y 0=N''] s)
       \<lparr>keys := typed_hour @ CHR ''#'' # typed_minute @ CHR ''#'' # rest,
         lastActionTime := millis s,
         medications := (medications s)(index := (medications s index)\<lparr>active := True\<rparr>)\<rparr>"
  define s4 where "s4 = emits [LcdClear, LcdPrint ''Set Hour (0-23):'', LcdSetCursor 0 1] s3"
  have k4: "keys s4 = typed_hour @ CHR ''#'' # typed_minute @ CHR ''#'' # rest"
    by (simp add: s4_def s3_def emits_def)
  obtain h s5 where r5: "read_number 23 ''Set Hour (0-23):'' (keys s4) 0 s4 = Returns (Some h, s5)"
      and k5: "keys s5 = typed_minute @ CHR ''#'' # rest" and m5: "medications s5 = medications s4"
    using read_number_prefix [OF assms(3), of 23 "''Set Hour (0-23):''" "typed_minute @ CHR ''#'' # rest" 0 s4]
    unfolding k4 by blast
  define s7 where "s7 = emits [LcdClear, LcdPrint ''Set Minute (0-59):'', LcdSetCursor 0 1]
       (s5\<lparr>medications := (medications s5)(index := (medications s5 index)\<lparr>hour := h\<rparr>)\<rparr>)"
  have k7: "keys s7 = typed_minute @ CHR ''#'' # rest"
    by (simp add: s7_def emits_def k5)
  obtain m s8 where r8: "read_number 59 ''Set Minute (0-59):'' (keys s7) 0 s7 = Returns (Some m, s8)"
      and m8: "medications s8 = medications s7"
    using read_number_prefix [OF assms(4), of 59 "''Set Minute (0-59):''" rest 0 s7]
    unfolding k7 by blast
  have a7: "active (medications s7 index)"
    by (simp add: s7_def emits_def m5 s4_def s3_def)
  have "setMedicationTime index s =
          Returns (delay 1500 (emits [LcdClear, LcdPrint ''Medicine '', LcdPrintNum (int index + 1),
                     LcdSetCursor 0 1, LcdPrint ''Time Set!'']
             (s8\<lparr>medications := (medications s8)
                 (index := (medications s8 index)\<lparr>minute := m, dispensedToday := False\<rparr>)\<rparr>)))"
    using assms(1) wait_active_prefix [OF assms(2), of "CHR ''1''"] r5 r8
    by (simp add: setMedicationTime_def Let_def then_run_def emits_def s3_def s4_def s7_def)
  then show ?thesis using a7 by (simp add: emits_def delay_def m8)
qed

text \<open>
  Claim C10. \<open>setMedicationTime index\<close> changes no slot other than \<open>index\<close>, however
  it ends; a setup started with key \<open>c\<close> in 1..5 changes no slot other than the one picked,
  saving included. Answering 0 to the active prompt changes nothing of the table but the
  \<open>active\<close> flag of that slot, so its hour, minute and \<open>dispensedToday\<close> stay. Answering
  1 and confirming both the hour and the minute with \<^verbatim>\<open>#\<close> leaves the slot active with
  \<open>dispensedToday\<close> reset. Keys that the waiting loop ignores may come before each answer.
\<close>

theorem setup_touches_one_slot:
  "(j \<noteq> index \<longrightarrow> medications (final (setMedicationTime index s)) j = medications s j)
   \<and> (keys s = pre @ c # rest \<and> list_all (\<lambda>k. \<not> is_slot_key k \<and> k \<noteq> CHR ''D'') pre
        \<and> is_slot_key c \<and> j \<noteq> slot_of_key c \<longrightarrow>
        medications (final (setupMedications s)) j = medications s j)
   \<and> (keys s = pre @ CHR ''0'' # rest
        \<and> list_all (\<lambda>k. k \<noteq> CHR ''1'' \<and> k \<noteq> CHR ''0'' \<and> k \<noteq> CHR ''D'') pre \<longrightarrow>
        (\<exists>s'. setMedicationTime index s = Returns s'
            \<and> medications s' = (medications s)(index := (medications s index)\<lparr>active := False\<rparr>)))
   \<and> (keys s = pre @ CHR ''1'' # typed_hour @ CHR ''#'' # typed_minute @ CHR ''#'' # rest
        \<and> list_all (\<lambda>k. k \<noteq> CHR ''1'' \<and> k \<noteq> CHR ''0'' \<and> k \<noteq> CHR ''D'') pre
        \<and> list_all (\<lambda>k. k \<noteq> CHR ''#'' \<and> k \<noteq> CHR ''D'') typed_hour
        \<and> list_all (\<lambda>k. k \<noteq> CHR ''#'' \<and> k \<noteq> CHR ''D'') typed_minute \<longrightarrow>
        (\<exists>s'. setMedicationTime index s = Returns s'
            \<and> active (medications s' index) \<and> \<not> dispensedToday (medications s' index)))"
  using setMedicationTime_frame [of j index s]
        setupMedications_frame [of s pre c rest j]
        setMedicationTime_deactivate [of s pre rest index]
        setMedicationTime_complete [of s pre typed_hour typed_minute rest index]
  by blast

theorem setup_touches_one_slot_witness:
  "medications (final (setMedicationTime 2 (setup_state ''0''))) 0 = morning_table 0
   \<and> medications (final (setupMedications (setup_state ''30''))) 0 = morning_table 0
   \<and> (\<exists>s'. setMedicationTime 0 (setup_state ''0'') = Returns s'
         \<and> medications s' = morning_table (0 := (morning_table 0)\<lparr>active := False\<rparr>))
   \<and> dispensedToday (morning_table 3)
   \<and> (\<exists>s'. setMedicationTime 3 (setup_state ''112#30#'') = Returns s'
         \<and> active (medications s' 3) \<and> \<not> dispensedToday (medications s' 3))"
proof -
  have a: "medications (final (setMedicationTime 2 (setup_state ''0''))) 0 = morning_table 0"
    using setup_touches_one_slot [where j = 0 and index = 2 and s = "setup_state ''0''",
            THEN conjunct1]
    by (simp add: setup_state_def idle_state_def)
  have b: "medications (final (setupMedications (setup_state ''30''))) 0 = morning_table 0"
    using setup_touches_one_slot [where j = 0 and s = "setup_state ''30''" and pre = "[]"
            and c = "CHR ''3''" and rest = "''0''", THEN conjunct2, THEN conjunct1]
    by (simp add: setup_state_def idle_state_def is_slot_key_def slot_of_key_def)
  have c: "\<exists>s'. setMedicationTime 0 (setup_state ''0'') = Returns s'
         \<and> medications s' = morning_table (0 := (morning_table 0)\<lparr>active := False\<rparr>)"
    using setup_touches_one_slot [where index = 0 and s = "setup_state ''0''" and pre = "[]"
            and rest = "[]", THEN conjunct2, THEN conjunct2, THEN conjunct1]
    by (simp add: setup_state_def idle_state_def)
  have d: "\<exists>s'. setMedicationTime 3 (setup_state ''112#30#'') = Returns s'
         \<and> active (medications s' 3) \<and> \<not> dispensedToday (medications s' 3)"
    using setup_touches_one_slot [where index = 3 and s = "setup_state ''112#30#''"
            and pre = "[]" and typed_hour = "''12''" and typed_minute = "''30''" and rest = "[]",
            THEN conjunct2, THEN conjunct2, THEN conjunct2]
    by (simp add: setup_state_def idle_state_def)
  have e: "dispensedToday (morning_table 3)"
    by (simp add: morning_table_def slot_at_def)
  show ?thesis using a b c d e by blast
qed

text \<open>Two runs of the entry loops: plain digits, and digits that are clamped and cleared.\<close>

lemma setup_example_value:
  "medications (final (setMedicationTime 3 (setup_state ''112#30#''))) 3 = slot_at 12 30 False"
  by (simp add: setMedicationTime_def Let_def then_run_def final_def emits_def delay_def
        setup_state_def idle_state_def morning_table_def slot_at_def)

lemma setup_example_clamped:
  "medications (final (setMedicationTime 1 (setup_state ''129#7*61#''))) 1 = slot_at 23 59 False"
  by (simp add: setMedicationTime_def Let_def then_run_def final_def emits_def delay_def
        setup_state_def idle_state_def morning_table_def slot_at_def slot_off_def)

end
